theory Spec2Isabelle
  imports
    Main
    "HOL-Library.Multiset"
    "HOL-Library.Char_ord"
    "HOL-Library.List_Lexorder"
    "HOL-Library.Product_Lexorder"
begin

section \<open>Python values, errors and log records\<close>

text \<open>
  The configuration returned by \<^verbatim>\<open>tomllib.load\<close> and the values the class passes around
  are dynamically typed.  \<open>pyval\<close> holds the shapes that occur: \<^verbatim>\<open>None\<close>, booleans,
  integers, strings, lists (tuples are written as lists) and dictionaries with string keys,
  kept as association lists in insertion order.
\<close>

datatype pyval =
    PNone
  | PBool bool
  | PInt int
  | PStr string
  | PList "pyval list"
  | PDict "(string \<times> pyval) list"

type_synonym pydict = "(string \<times> pyval) list"

text \<open>
  Every \<^verbatim>\<open>raise\<close> of the module and every exception of a builtin it calls is a value.
  \<open>SystemExit\<close> is the only one that ends the process; \<open>Setup2uPyPackageError\<close> is the
  exception class the module imports from its sibling module; \<open>LibraryError\<close> stands for
  whatever an external library raises.
\<close>

datatype error =
    SystemExit string
  | Setup2uPyPackageError string
  | TypeError
  | KeyError string
  | AttributeError
  | ValueError
  | FileNotFoundError
  | JSONDecodeError
  | LibraryError string

datatype level = DEBUG | INFO | WARNING

text \<open>
  A log record is the level and the message template handed to the logger; the rendering of
  the \<^verbatim>\<open>format\<close> arguments of debug messages is left out.
\<close>

type_synonym log = "(level \<times> string) list"

text \<open>A computation: the records it logged, and the exception raised or the value returned.\<close>

type_synonym 'a py = "log \<times> (error + 'a)"

definition py_return :: "'a \<Rightarrow> 'a py" where
  "py_return x = ([], Inr x)"

definition py_raise :: "error \<Rightarrow> 'a py" where
  "py_raise e = ([], Inl e)"

definition py_log :: "level \<Rightarrow> string \<Rightarrow> unit py" where
  "py_log lvl msg = ([(lvl, msg)], Inr ())"

definition lift :: "error + 'a \<Rightarrow> 'a py" where
  "lift r = ([], r)"

fun py_bind :: "'a py \<Rightarrow> ('a \<Rightarrow> 'b py) \<Rightarrow> 'b py" where
  "py_bind (l, Inl e) f = (l, Inl e)"
| "py_bind (l, Inr x) f = (case f x of (l', r) \<Rightarrow> (l @ l', r))"

definition result :: "'a py \<Rightarrow> error + 'a" where
  "result m = snd m"


section \<open>Builtins of Python used by the module\<close>

text \<open>Truth value of an object, as \<^verbatim>\<open>if x:\<close> tests it.\<close>

fun py_truthy :: "pyval \<Rightarrow> bool" where
  "py_truthy PNone = False"
| "py_truthy (PBool b) = b"
| "py_truthy (PInt i) = (i \<noteq> 0)"
| "py_truthy (PStr s) = (s \<noteq> [])"
| "py_truthy (PList xs) = (xs \<noteq> [])"
| "py_truthy (PDict kvs) = (kvs \<noteq> [])"

text \<open>\<^verbatim>\<open>d.get(k, default)\<close>: only a dictionary has the method.\<close>

fun dict_get :: "pyval \<Rightarrow> string \<Rightarrow> pyval \<Rightarrow> error + pyval" where
  "dict_get (PDict kvs) k d = Inr (case map_of kvs k of None \<Rightarrow> d | Some v \<Rightarrow> v)"
| "dict_get _ k d = Inl AttributeError"

text \<open>
  \<^verbatim>\<open>x[k]\<close> with a string key: a lookup in a dictionary (\<^verbatim>\<open>KeyError\<close> when the key is
  missing), a \<^verbatim>\<open>TypeError\<close> on a string, a list or any other object.
\<close>

fun py_getitem :: "pyval \<Rightarrow> string \<Rightarrow> error + pyval" where
  "py_getitem (PDict kvs) k = (case map_of kvs k of None \<Rightarrow> Inl (KeyError k) | Some v \<Rightarrow> Inr v)"
| "py_getitem _ k = Inl TypeError"

text \<open>\<^verbatim>\<open>d[k] = v\<close> on an insertion-ordered dictionary.\<close>

fun dict_set :: "('k \<times> 'v) list \<Rightarrow> 'k \<Rightarrow> 'v \<Rightarrow> ('k \<times> 'v) list" where
  "dict_set [] k v = [(k, v)]"
| "dict_set ((k', v') # kvs) k v = (if k' = k then (k, v) # kvs else (k', v') # dict_set kvs k v)"

text \<open>\<^verbatim>\<open>for x in v\<close>: the items of a list, the characters of a string, the keys of a dictionary.\<close>

fun py_iter :: "pyval \<Rightarrow> error + pyval list" where
  "py_iter (PList xs) = Inr xs"
| "py_iter (PStr s) = Inr (map (\<lambda>c. PStr [c]) s)"
| "py_iter (PDict kvs) = Inr (map (\<lambda>kv. PStr (fst kv)) kvs)"
| "py_iter _ = Inl TypeError"

definition starts_with :: "string \<Rightarrow> string \<Rightarrow> bool" where
  "starts_with p s = (take (length p) s = p)"

text \<open>\<^verbatim>\<open>s.split(sep)\<close> for a separator of one character.\<close>

fun py_split :: "char \<Rightarrow> string \<Rightarrow> string list" where
  "py_split sep [] = [[]]"
| "py_split sep (c # cs) =
     (if c = sep then [] # py_split sep cs
      else (case py_split sep cs of [] \<Rightarrow> [[c]] | w # ws \<Rightarrow> (c # w) # ws))"

text \<open>\<^verbatim>\<open>sep.join(xs)\<close>.\<close>

fun py_join :: "string \<Rightarrow> string list \<Rightarrow> string" where
  "py_join sep [] = []"
| "py_join sep [x] = x"
| "py_join sep (x # y # ys) = x @ sep @ py_join sep (y # ys)"

text \<open>\<^verbatim>\<open>i in s\<close> for two strings: \<open>i\<close> occurs in \<open>s\<close> as a contiguous substring.\<close>

fun py_in :: "string \<Rightarrow> string \<Rightarrow> bool" where
  "py_in i [] = (i = [])"
| "py_in i (c # cs) = (starts_with i (c # cs) \<or> py_in i cs)"

text \<open>\<^verbatim>\<open>s.replace(old, new)\<close>: every non-overlapping occurrence, from the left.\<close>

function py_replace :: "string \<Rightarrow> string \<Rightarrow> string \<Rightarrow> string" where
  "py_replace old new [] = (if old = [] then new else [])"
| "py_replace old new (c # cs) =
     (if old = [] then new @ c # py_replace old new cs
      else if starts_with old (c # cs)
        then new @ py_replace old new (drop (length old) (c # cs))
        else c # py_replace old new cs)"
  by pat_completeness auto
termination
  by (relation "measure (\<lambda>(old, new, s). length s)") auto


section \<open>Paths\<close>

text \<open>
  A \<^verbatim>\<open>pathlib.Path\<close> (POSIX flavour) is the list of its parts; an absolute path starts with
  the part \<open>''/''\<close> (or \<open>''//''\<close>).  Parsing drops empty and \<open>''.''\<close> components, as pathlib
  does.  The operations below are the ones the module calls.
\<close>

type_synonym path = "string list"

definition is_root_part :: "string \<Rightarrow> bool" where
  "is_root_part r = (r = ''/'' \<or> r = ''//'')"

definition Path :: "string \<Rightarrow> path" where
  "Path s =
     (if starts_with ''//'' s \<and> \<not> starts_with ''///'' s then [''//'']
      else if starts_with ''/'' s then [''/''] else [])
     @ filter (\<lambda>c. c \<noteq> [] \<and> c \<noteq> ''.'') (py_split CHR ''/'' s)"

definition is_absolute :: "path \<Rightarrow> bool" where
  "is_absolute p = (case p of [] \<Rightarrow> False | r # _ \<Rightarrow> is_root_part r)"

text \<open>\<^verbatim>\<open>str(p)\<close>.\<close>

definition str_path :: "path \<Rightarrow> string" where
  "str_path p =
     (case p of [] \<Rightarrow> ''.''
      | r # rest \<Rightarrow> if is_root_part r then r @ py_join ''/'' rest else py_join ''/'' p)"

text \<open>\<^verbatim>\<open>a / b\<close>.\<close>

definition path_div :: "path \<Rightarrow> path \<Rightarrow> path" where
  "path_div a b = (if is_absolute b then b else a @ b)"

text \<open>
  \<^verbatim>\<open>p.relative_to(base)\<close>: lexical, \<^verbatim>\<open>ValueError\<close> when the parts of \<open>base\<close> do not
  start \<open>p\<close>, also when \<open>p\<close> is absolute and \<open>base\<close> is the empty relative path.
\<close>

definition relative_to :: "path \<Rightarrow> path \<Rightarrow> error + path" where
  "relative_to p base =
     (if take (length base) p = base \<and> (base \<noteq> [] \<or> \<not> is_absolute p)
      then Inr (drop (length base) p) else Inl ValueError)"

text \<open>\<^verbatim>\<open>p.parent\<close>.\<close>

definition parent :: "path \<Rightarrow> path" where
  "parent p =
     (case p of [] \<Rightarrow> []
      | [r] \<Rightarrow> if is_root_part r then [r] else []
      | _ \<Rightarrow> butlast p)"

text \<open>
  The file system, as far as the module reads and writes it: the regular files and their
  text.  Directories are not created or removed by the module.
\<close>

type_synonym fs = "path \<rightharpoonup> string"

definition is_file :: "fs \<Rightarrow> path \<Rightarrow> bool" where
  "is_file files p = (files p \<noteq> None)"


section \<open>The manifest and the external collaborators\<close>

text \<open>
  A package manifest (\<^verbatim>\<open>package.json\<close>) is a dictionary with the keys \<^verbatim>\<open>urls\<close>,
  \<^verbatim>\<open>deps\<close> and \<^verbatim>\<open>version\<close>; a key may be missing from a manifest read from a file, so
  each field is optional.  An entry of \<^verbatim>\<open>urls\<close> is the two-element list of a relative path
  and a download URL; \<^verbatim>\<open>deps\<close> is whatever the configuration holds under
  \<^verbatim>\<open>project.dependencies\<close>.
\<close>

record manifest =
  urls :: "(string \<times> string) list option"
  deps :: "pyval option"
  version :: "string option"

text \<open>A loaded module, as far as \<^verbatim>\<open>getattr\<close> looks at it.\<close>

type_synonym module = "string \<rightharpoonup> string"

text \<open>
  What the module calls in setuptools, pathlib's glob, importlib, changelog2version and
  json is not part of it and is taken as a parameter:
  \<^item> \<open>find_package_path name package_dir root\<close> and
    \<open>find_namespace_packages where include exclude\<close> of setuptools;
  \<^item> \<open>glob exists dir pattern\<close>, which can see which files exist but not what they hold;
  \<^item> \<open>exec_module text\<close>, the module obtained by running a source text;
  \<^item> \<open>parse_changelog text\<close> and \<open>parse_semver_line line\<close> of \<^verbatim>\<open>ExtractVersion\<close>;
  \<^item> \<open>json_loads text\<close> and \<open>json_dumps data indent\<close>;
  \<^item> \<open>open_for_writing p\<close>, the error \<^verbatim>\<open>open(p, "w")\<close> raises, if any: directories are
    not part of the file system below, so whether the directory of \<open>p\<close> is there is
    answered from outside.
\<close>

record libs =
  find_package_path :: "string \<Rightarrow> pyval \<Rightarrow> path \<Rightarrow> error + string"
  find_namespace_packages :: "pyval \<Rightarrow> pyval \<Rightarrow> pyval \<Rightarrow> error + string list"
  glob :: "(path \<Rightarrow> bool) \<Rightarrow> path \<Rightarrow> string \<Rightarrow> path list"
  exec_module :: "string \<Rightarrow> error + module"
  parse_changelog :: "string \<Rightarrow> error + string"
  parse_semver_line :: "string \<Rightarrow> error + string"
  json_loads :: "string \<Rightarrow> error + manifest"
  json_dumps :: "manifest \<Rightarrow> nat option \<Rightarrow> string"
  open_for_writing :: "path \<Rightarrow> error option"

fun err_bind :: "error + 'a \<Rightarrow> ('a \<Rightarrow> error + 'b) \<Rightarrow> error + 'b" where
  "err_bind (Inl e) f = Inl e"
| "err_bind (Inr x) f = f x"


section \<open>The class \<^verbatim>\<open>Pyproject2uPyPackage\<close>\<close>

text \<open>
  The attributes \<^verbatim>\<open>__init__\<close> sets and nothing changes afterwards: the three paths and
  the parsed configuration.  \<^verbatim>\<open>_root_dir\<close> is the parent of the configuration file.
\<close>

record pyproject2upypackage =
  project_config_file :: path
  package_file :: "path option"
  package_changelog_file :: "path option"
  setup_data :: pydict

definition root_dir :: "pyproject2upypackage \<Rightarrow> path" where
  "root_dir self = parent (project_config_file self)"

text \<open>\<^verbatim>\<open>self._setup_data.get("tool", {}).get("setuptools", {})\<close>.\<close>

definition tool_setuptools :: "pyproject2upypackage \<Rightarrow> error + pyval" where
  "tool_setuptools self =
     err_bind (dict_get (PDict (setup_data self)) ''tool'' (PDict []))
       (\<lambda>tool. dict_get tool ''setuptools'' (PDict []))"

text \<open>\<^verbatim>\<open>load_module\<close>: reads the source file and runs it.\<close>

definition load_module :: "libs \<Rightarrow> fs \<Rightarrow> string \<Rightarrow> module py" where
  "load_module L files source =
     (case files (Path source) of
        None \<Rightarrow> py_raise FileNotFoundError
      | Some text \<Rightarrow> lift (exec_module L text))"

text \<open>
  The body of both \<^verbatim>\<open>for package in packages\<close> loops of \<^verbatim>\<open>_find_packages\<close>.
  setuptools splits the package name, which only a string allows.
\<close>

fun package_paths_loop ::
  "libs \<Rightarrow> path \<Rightarrow> pyval \<Rightarrow> pyval list \<Rightarrow> (string \<times> string) list
     \<Rightarrow> error + (string \<times> string) list" where
  "package_paths_loop L root package_dir [] package_paths = Inr package_paths"
| "package_paths_loop L root package_dir (package # packages) package_paths =
     (case package of
        PStr name \<Rightarrow>
          err_bind (find_package_path L name package_dir root) (\<lambda>package_path.
            package_paths_loop L root package_dir packages
              (dict_set package_paths name package_path))
      | _ \<Rightarrow> Inl AttributeError)"

text \<open>The loop \<^verbatim>\<open>for search_dir in where\<close>.\<close>

fun search_dirs_loop ::
  "libs \<Rightarrow> path \<Rightarrow> pyval \<Rightarrow> string option \<Rightarrow> pyval list \<Rightarrow> (string \<times> string) list
     \<Rightarrow> error + (string \<times> string) list" where
  "search_dirs_loop L root find_rules package_name [] package_paths = Inr package_paths"
| "search_dirs_loop L root find_rules package_name (search_dir # dirs) package_paths =
     err_bind
       (case package_name of
          Some name \<Rightarrow> Inr [name]
        | None \<Rightarrow>
            err_bind (dict_get find_rules ''include'' (PList [PStr ''*''])) (\<lambda>include.
            err_bind (dict_get find_rules ''exclude'' (PList [])) (\<lambda>exclude.
              find_namespace_packages L search_dir include exclude)))
       (\<lambda>packages.
          err_bind
            (package_paths_loop L root (PDict [([], search_dir)]) (map PStr packages)
               package_paths)
            (\<lambda>package_paths'. search_dirs_loop L root find_rules package_name dirs package_paths'))"

definition find_packages ::
  "libs \<Rightarrow> pyproject2upypackage \<Rightarrow> string option \<Rightarrow> error + (string \<times> string) list" where
  "find_packages L self package_name =
     err_bind (tool_setuptools self) (\<lambda>st.
     err_bind (dict_get st ''packages'' (PDict [])) (\<lambda>packages_setup.
       (case packages_setup of
          PList listed \<Rightarrow>
            err_bind (tool_setuptools self) (\<lambda>st'.
            err_bind (dict_get st' ''package-dir'' (PDict [([], PStr ''.'')])) (\<lambda>package_dir.
              package_paths_loop L (root_dir self) package_dir
                (case package_name of None \<Rightarrow> listed | Some name \<Rightarrow> [PStr name]) []))
        | _ \<Rightarrow>
            err_bind (tool_setuptools self) (\<lambda>st'.
            err_bind (dict_get st' ''packages'' (PDict [])) (\<lambda>ps.
            err_bind (dict_get ps ''find'' (PDict [])) (\<lambda>find_rules.
            err_bind (dict_get find_rules ''where'' (PList [PStr ''.''])) (\<lambda>search_roots.
            err_bind (py_iter search_roots) (\<lambda>dirs.
              search_dirs_loop L (root_dir self) find_rules package_name dirs []))))))))"

definition package_version :: "libs \<Rightarrow> fs \<Rightarrow> pyproject2upypackage \<Rightarrow> string py" where
  "package_version L files self =
     py_bind
       (lift
          (err_bind (tool_setuptools self) (\<lambda>st.
           err_bind (dict_get st ''dynamic'' (PDict [])) (\<lambda>dynamic.
             dict_get dynamic ''version'' (PStr ''-1.-1.-1'')))))
       (\<lambda>ver.
     py_bind (lift (py_getitem ver ''attr'')) (\<lambda>attr.
       if py_truthy attr then
         (case attr of
            PStr a \<Rightarrow>
              (let version_module = py_join ''.'' (butlast (py_split CHR ''.'' a));
                   version_attr = last (py_split CHR ''.'' a)
               in
                 py_bind (lift (find_packages L self (Some version_module))) (\<lambda>paths.
                 py_bind
                   (lift
                      (case map_of paths version_module of
                         None \<Rightarrow> Inl (KeyError version_module)
                       | Some p \<Rightarrow> Inr p))
                   (\<lambda>package_path.
                 py_bind (load_module L files (package_path @ ''.py'')) (\<lambda>m.
                   (case m version_attr of
                      None \<Rightarrow> py_raise AttributeError
                    | Some v \<Rightarrow> py_return v)))))
          | _ \<Rightarrow> py_raise AttributeError)
       else
         py_bind (py_log WARNING (''Unable to identify package 'version'' @ [CHR 0x27])) (\<lambda>_.
           py_return ''-1.-1.-1'')))"

definition package_changelog_version ::
  "libs \<Rightarrow> fs \<Rightarrow> pyproject2upypackage \<Rightarrow> string py" where
  "package_changelog_version L files self =
     (case package_changelog_file self of
        Some changelog \<Rightarrow>
          (case files changelog of
             None \<Rightarrow> py_raise FileNotFoundError
           | Some text \<Rightarrow>
               lift (err_bind (parse_changelog L text) (\<lambda>version_line.
                       parse_semver_line L version_line)))
      | None \<Rightarrow>
          py_bind (py_log WARNING ''No package changelog file specified'') (\<lambda>_.
            py_return ''-1.-1.-1''))"

definition package_deps :: "pyproject2upypackage \<Rightarrow> pyval py" where
  "package_deps self =
     py_bind
       (lift
          (err_bind (dict_get (PDict (setup_data self)) ''project'' (PDict [])) (\<lambda>project.
             dict_get project ''dependencies'' PNone)))
       (\<lambda>dependencies.
          if py_truthy dependencies then py_return dependencies
          else
            py_bind (py_log WARNING ''No 'dependencies' key found in setup data dict'') (\<lambda>_.
              py_return (PList [])))"

definition package_url :: "pyproject2upypackage \<Rightarrow> pyval py" where
  "package_url self =
     py_bind (lift (dict_get (PDict (setup_data self)) ''project'' (PList []))) (\<lambda>project.
       if py_truthy project then
         lift (err_bind (py_getitem project ''urls'') (\<lambda>u. py_getitem u ''Source''))
       else
         py_bind (py_log WARNING ''No 'urls[Source]' key found in setup data dict'') (\<lambda>_.
           py_raise (SystemExit ''Project URL is mandatory'')))"

text \<open>
  \<^verbatim>\<open>[x.relative_to(self._root_dir) for x in p if x.is_file()]\<close>, the filter being applied
  by the caller.
\<close>

fun relative_all :: "path \<Rightarrow> path list \<Rightarrow> error + path list" where
  "relative_all root [] = Inr []"
| "relative_all root (x # xs) =
     err_bind (relative_to x root) (\<lambda>r.
     err_bind (relative_all root xs) (\<lambda>rs. Inr (r # rs)))"

text \<open>The loop of \<^verbatim>\<open>package_files\<close> over the items of the dictionary of package paths.\<close>

fun package_files_loop ::
  "libs \<Rightarrow> fs \<Rightarrow> path \<Rightarrow> (string \<times> string) list \<Rightarrow> path list \<Rightarrow> error + path list" where
  "package_files_loop L files root [] all_files = Inr all_files"
| "package_files_loop L files root (info # infos) all_files =
     err_bind (relative_to (Path (snd info)) root) (\<lambda>rel.
       (let search_dir = str_path rel @ ''/*.py'';
            p = glob L (is_file files) root search_dir
        in
          err_bind (relative_all root (filter (is_file files) p)) (\<lambda>found.
            package_files_loop L files root infos (all_files @ found))))"

definition package_files :: "libs \<Rightarrow> fs \<Rightarrow> pyproject2upypackage \<Rightarrow> error + path list" where
  "package_files L files self =
     err_bind (find_packages L self None) (\<lambda>package_paths.
       package_files_loop L files (root_dir self) package_paths [])"

definition data_files :: "path list" where
  "data_files = []"

fun create_url_elements :: "path list \<Rightarrow> string \<Rightarrow> (string \<times> string) list py" where
  "create_url_elements [] url = py_return []"
| "create_url_elements (file # rest) url =
     py_bind (py_log DEBUG ''File elements: {}: {}'') (\<lambda>_.
     py_bind (create_url_elements rest url) (\<lambda>more.
       py_return ((str_path file, str_path (path_div (Path url) file)) # more)))"

definition package_data :: "libs \<Rightarrow> fs \<Rightarrow> pyproject2upypackage \<Rightarrow> manifest py" where
  "package_data L files self =
     py_bind (lift (package_files L files self)) (\<lambda>found.
     py_bind
       (case package_changelog_file self of
          Some _ \<Rightarrow> package_changelog_version L files self
        | None \<Rightarrow> package_version L files self)
       (\<lambda>ver.
     py_bind (package_deps self) (\<lambda>install_requires.
     py_bind (package_url self) (\<lambda>source.
     py_bind
       (case source of
          PStr s \<Rightarrow> py_return (py_replace ''https://github.com/'' ''github:'' s)
        | _ \<Rightarrow> py_raise AttributeError)
       (\<lambda>url.
     py_bind (create_url_elements found url) (\<lambda>from_packages.
     py_bind (create_url_elements data_files url) (\<lambda>from_data.
     py_bind (py_log DEBUG ''version: {}'') (\<lambda>_.
     py_bind (py_log DEBUG ''install_requires: {}'') (\<lambda>_.
     py_bind (py_log DEBUG ''package_files: {}'') (\<lambda>_.
     py_bind (py_log DEBUG ''data_files: {}'') (\<lambda>_.
     py_bind (py_log DEBUG ''url: {}'') (\<lambda>_.
     py_bind (py_log DEBUG ''urls: {}'') (\<lambda>_.
       py_return
         \<lparr>urls = Some (from_packages @ from_data),
          deps = Some install_requires,
          version = Some ver\<rparr>)))))))))))))"


definition package_json_data :: "libs \<Rightarrow> fs \<Rightarrow> pyproject2upypackage \<Rightarrow> manifest py" where
  "package_json_data L files self =
     (case package_file self of
        Some f \<Rightarrow>
          (case files f of
             None \<Rightarrow> py_raise FileNotFoundError
           | Some text \<Rightarrow> lift (json_loads L text))
      | None \<Rightarrow> py_raise (Setup2uPyPackageError ''No package.json data specified''))"

definition default_excludes :: "string list" where
  "default_excludes = [''boot.py'', ''main.py'']"

definition exclude_package_files ::
  "(string \<times> string) list \<Rightarrow> string list \<Rightarrow> (string \<times> string) list" where
  "exclude_package_files entries excludes =
     filter (\<lambda>ele. \<not> list_ex (\<lambda>i. py_in i (fst ele)) excludes) entries"

text \<open>
  \<^verbatim>\<open>list.sort()\<close> on url entries compares them as lists of strings, that is
  lexicographically, strings by code point; \<open>sort\<close> at the type of pairs of strings is the
  same order.
\<close>

definition validate ::
  "libs \<Rightarrow> fs \<Rightarrow> pyproject2upypackage \<Rightarrow> bool \<Rightarrow> bool \<Rightarrow> bool \<Rightarrow> bool py" where
  "validate L files self ignore_version ignore_deps ignore_boot_main =
     py_bind (package_json_data L files self) (\<lambda>target.
     py_bind (package_data L files self) (\<lambda>derived.
       (let target1 = (if ignore_version then target\<lparr>version := None\<rparr> else target);
            derived1 = (if ignore_version then derived\<lparr>version := None\<rparr> else derived);
            target2 = (if ignore_deps then target1\<lparr>deps := None\<rparr> else target1);
            derived2 = (if ignore_deps then derived1\<lparr>deps := None\<rparr> else derived1);
            target3 =
              (if ignore_boot_main
               then target2\<lparr>urls := Some (exclude_package_files
                      (case urls target2 of None \<Rightarrow> [] | Some u \<Rightarrow> u) default_excludes)\<rparr>
               else target2);
            derived3 =
              (if ignore_boot_main
               then derived2\<lparr>urls := Some (exclude_package_files
                      (case urls derived2 of None \<Rightarrow> [] | Some u \<Rightarrow> u) default_excludes)\<rparr>
               else derived2);
            target4 = target3\<lparr>urls := map_option sort (urls target3)\<rparr>;
            derived4 = derived3\<lparr>urls := map_option sort (urls derived3)\<rparr>
        in py_return (target4 = derived4))))"

text \<open>The \<^verbatim>\<open>DeepDiff\<close> object is kept as the pair of its two arguments.\<close>

datatype deepdiff = DeepDiff manifest manifest

definition validation_diff :: "libs \<Rightarrow> fs \<Rightarrow> pyproject2upypackage \<Rightarrow> deepdiff py" where
  "validation_diff L files self =
     py_bind (package_data L files self) (\<lambda>derived.
     py_bind (package_json_data L files self) (\<lambda>target.
       py_return (DeepDiff derived target)))"

text \<open>
  \<^verbatim>\<open>create\<close> opens the output file for writing, which may fail and otherwise empties the
  file, before it evaluates \<^verbatim>\<open>self.package_data\<close>; it returns what it logged and raised,
  and the file system it leaves behind.
\<close>

definition create ::
  "libs \<Rightarrow> fs \<Rightarrow> pyproject2upypackage \<Rightarrow> path option \<Rightarrow> bool \<Rightarrow> unit py \<times> fs" where
  "create L files self output_path pretty =
     (let (l0, out) =
            (case output_path of
               Some p \<Rightarrow> ([], p)
             | None \<Rightarrow>
                 (case package_file self of
                    Some f \<Rightarrow> ([], f)
                  | None \<Rightarrow>
                      ([(INFO, ''No package.json data specified, using setup.py directory'')],
                       path_div (parent (project_config_file self)) (Path ''package.json''))));
          opened = files(out \<mapsto> [])
      in
        (case open_for_writing L out of
           Some e \<Rightarrow> ((l0, Inl e), files)
         | None \<Rightarrow>
             (case package_data L opened self of
                (l1, Inl e) \<Rightarrow> ((l0 @ l1, Inl e), opened)
              | (l1, Inr data) \<Rightarrow>
                  ((l0 @ l1 @ [(DEBUG, ''Created {}'')], Inr ()),
                   opened(out \<mapsto> json_dumps L data (if pretty then Some 4 else None))))))"


section \<open>An example project\<close>

text \<open>
  The project \<^verbatim>\<open>acme/widget\<close>: the configuration \<^verbatim>\<open>proj/pyproject.toml\<close> lists the package
  \<^verbatim>\<open>widget\<close>, whose directory holds \<^verbatim>\<open>__init__.py\<close> and \<^verbatim>\<open>core.py\<close>.  It declares no
  version source.
\<close>

definition widget_config :: pydict where
  "widget_config =
     [(''project'',
         PDict [(''name'', PStr ''widget''),
                (''dependencies'', PList [PStr ''urequests'']),
                (''urls'', PDict [(''Source'', PStr ''https://github.com/acme/widget'')])]),
      (''tool'', PDict [(''setuptools'', PDict [(''packages'', PList [PStr ''widget''])])])]"

text \<open>The same project with \<^verbatim>\<open>version = {attr = ""}\<close> under \<^verbatim>\<open>tool.setuptools.dynamic\<close>.\<close>

definition widget_config_empty_attr :: pydict where
  "widget_config_empty_attr =
     [(''project'',
         PDict [(''name'', PStr ''widget''),
                (''dependencies'', PList [PStr ''urequests'']),
                (''urls'', PDict [(''Source'', PStr ''https://github.com/acme/widget'')])]),
      (''tool'',
         PDict [(''setuptools'',
                   PDict [(''packages'', PList [PStr ''widget'']),
                          (''dynamic'', PDict [(''version'', PDict [(''attr'', PStr [])])])])])]"

text \<open>A configuration with a \<^verbatim>\<open>[project]\<close> table that has no \<^verbatim>\<open>urls\<close>.\<close>

definition widget_config_no_urls :: pydict where
  "widget_config_no_urls =
     [(''project'',
         PDict [(''name'', PStr ''widget''),
                (''dependencies'', PList [PStr ''urequests''])]),
      (''tool'',
         PDict [(''setuptools'',
                   PDict [(''packages'', PList [PStr ''widget'']),
                          (''dynamic'', PDict [(''version'', PDict [(''attr'', PStr [])])])])])]"

text \<open>A configuration without a \<^verbatim>\<open>[project]\<close> table.\<close>

definition widget_config_no_project :: pydict where
  "widget_config_no_project =
     [(''tool'',
         PDict [(''setuptools'',
                   PDict [(''packages'', PList [PStr ''widget'']),
                          (''dynamic'', PDict [(''version'', PDict [(''attr'', PStr [])])])])])]"

definition widget_manifest :: manifest where
  "widget_manifest =
     \<lparr>urls = Some [(''widget/__init__.py'', ''github:acme/widget/widget/__init__.py''),
                   (''widget/core.py'', ''github:acme/widget/widget/core.py'')],
      deps = Some (PList [PStr ''urequests'']),
      version = Some ''-1.-1.-1''\<rparr>"

text \<open>The same manifest with its \<^verbatim>\<open>urls\<close> in the other order.\<close>

definition widget_manifest_reordered :: manifest where
  "widget_manifest_reordered =
     \<lparr>urls = Some [(''widget/core.py'', ''github:acme/widget/widget/core.py''),
                   (''widget/__init__.py'', ''github:acme/widget/widget/__init__.py'')],
      deps = Some (PList [PStr ''urequests'']),
      version = Some ''-1.-1.-1''\<rparr>"

definition widget_json_compact :: string where
  "widget_json_compact =
     ''{\"urls\": [[\"widget/__init__.py\", \"github:acme/widget/widget/__init__.py\"], '' @
     ''[\"widget/core.py\", \"github:acme/widget/widget/core.py\"]], '' @
     ''\"deps\": [\"urequests\"], \"version\": \"-1.-1.-1\"}''"

definition widget_json_reordered :: string where
  "widget_json_reordered =
     ''{\"urls\": [[\"widget/core.py\", \"github:acme/widget/widget/core.py\"], '' @
     ''[\"widget/__init__.py\", \"github:acme/widget/widget/__init__.py\"]], '' @
     ''\"deps\": [\"urequests\"], \"version\": \"-1.-1.-1\"}''"


definition widget_json_pretty :: string where
  "widget_json_pretty =
     py_join [CHR 0x0A]
       [''{'',
        ''    \"urls\": ['',
        ''        ['',
        ''            \"widget/__init__.py\",'',
        ''            \"github:acme/widget/widget/__init__.py\"'',
        ''        ],'',
        ''        ['',
        ''            \"widget/core.py\",'',
        ''            \"github:acme/widget/widget/core.py\"'',
        ''        ]'',
        ''    ],'',
        ''    \"deps\": ['',
        ''        \"urequests\"'',
        ''    ],'',
        ''    \"version\": \"-1.-1.-1\"'',
        ''}'']"

definition widget_files :: fs where
  "widget_files =
     map_of
       [([''proj'', ''widget'', ''__init__.py''], []),
        ([''proj'', ''widget'', ''core.py''], ''def run(): pass''),
        ([''proj'', ''package.json''], widget_json_reordered),
        ([''proj'', ''CHANGELOG.md''], ''## [1.2.3] - 2024-01-01'')]"

definition ends_with :: "string \<Rightarrow> string \<Rightarrow> bool" where
  "ends_with suffix s = starts_with (rev suffix) (rev s)"

text \<open>
  Stand-ins for the libraries on this project.  The glob answers a pattern
  \<^verbatim>\<open>dir/*.py\<close> from the paths it knows; setuptools resolves a package below the
  directory mapped to the empty name; the changelog parser takes the first line and the
  version between its brackets; json knows the documents above; the directories are
  \<^verbatim>\<open>proj\<close> and \<^verbatim>\<open>proj/widget\<close>.
\<close>

definition example_glob :: "(path \<Rightarrow> bool) \<Rightarrow> path \<Rightarrow> string \<Rightarrow> path list" where
  "example_glob exists dir pattern =
     filter
       (\<lambda>p. exists p \<and>
          (case relative_to p dir of
             Inl _ \<Rightarrow> False
           | Inr rel \<Rightarrow>
               rel \<noteq> [] \<and> pattern = str_path (butlast rel) @ ''/*.py''
               \<and> ends_with ''.py'' (last rel)))
       [[''proj'', ''widget'', ''__init__.py''],
        [''proj'', ''widget'', ''core.py''],
        [''proj'', ''widget'', ''boot.py''],
        [''proj'', ''package.json''],
        [''proj'', ''CHANGELOG.md''],
        [''proj'', ''..'', ''other'', ''pkg'', ''x.py'']]"

definition example_libs :: libs where
  "example_libs =
     \<lparr>find_package_path =
        (\<lambda>name package_dir root.
           (case dict_get package_dir [] (PStr []) of
              Inr (PStr par) \<Rightarrow>
                Inr (py_join ''/''
                       (str_path root # py_split CHR ''/'' par @ py_split CHR ''.'' name))
            | _ \<Rightarrow> Inl (LibraryError ''package_dir''))),
      find_namespace_packages = (\<lambda>search_dir include exclude. Inr [''widget'']),
      glob = example_glob,
      exec_module = (\<lambda>text. Inr Map.empty),
      parse_changelog = (\<lambda>text. Inr (takeWhile (\<lambda>c. c \<noteq> CHR 0x0A) text)),
      parse_semver_line =
        (\<lambda>line. Inr (takeWhile (\<lambda>c. c \<noteq> CHR '']'')
                      (drop 1 (dropWhile (\<lambda>c. c \<noteq> CHR ''['') line)))),
      json_loads =
        (\<lambda>text.
           if text = widget_json_compact \<or> text = widget_json_pretty then Inr widget_manifest
           else if text = widget_json_reordered then Inr widget_manifest_reordered
           else Inl JSONDecodeError),
      json_dumps =
        (\<lambda>data indent.
           if data = widget_manifest
           then (case indent of None \<Rightarrow> widget_json_compact | Some _ \<Rightarrow> widget_json_pretty)
           else ''null''),
      open_for_writing =
        (\<lambda>p. if parent p = [''proj''] \<or> parent p = [''proj'', ''widget''] then None
             else Some FileNotFoundError)\<rparr>"

definition widget :: pyproject2upypackage where
  "widget =
     \<lparr>project_config_file = [''proj'', ''pyproject.toml''],
      package_file = Some [''proj'', ''package.json''],
      package_changelog_file = None,
      setup_data = widget_config\<rparr>"


text \<open>The project with a \<^verbatim>\<open>boot.py\<close> added to the package, and the manifest derived then.\<close>

definition widget_files_boot :: fs where
  "widget_files_boot = widget_files([''proj'', ''widget'', ''boot.py''] \<mapsto> ''import core'')"

definition widget_manifest_boot :: manifest where
  "widget_manifest_boot =
     \<lparr>urls = Some [(''widget/__init__.py'', ''github:acme/widget/widget/__init__.py''),
                   (''widget/core.py'', ''github:acme/widget/widget/core.py''),
                   (''widget/boot.py'', ''github:acme/widget/widget/boot.py'')],
      deps = Some (PList [PStr ''urequests'']),
      version = Some ''-1.-1.-1''\<rparr>"


text \<open>
  A project whose only package \<^verbatim>\<open>pkg\<close> lives beside the project directory:
  \<^verbatim>\<open>package-dir = {"" = "../other"}\<close>, with the file \<^verbatim>\<open>other/pkg/x.py\<close>, which is
  \<^verbatim>\<open>proj/../other/pkg/x.py\<close> as seen from the root.
\<close>

definition outside_config :: pydict where
  "outside_config =
     [(''project'',
         PDict [(''name'', PStr ''widget''),
                (''dependencies'', PList [PStr ''urequests'']),
                (''urls'', PDict [(''Source'', PStr ''https://github.com/acme/widget'')])]),
      (''tool'',
         PDict [(''setuptools'',
                   PDict [(''packages'', PList [PStr ''pkg'']),
                          (''package-dir'', PDict [([], PStr ''../other'')]),
                          (''dynamic'', PDict [(''version'', PDict [(''attr'', PStr [])])])])])]"

definition outside_files :: fs where
  "outside_files = map_of [([''proj'', ''..'', ''other'', ''pkg'', ''x.py''], ''X = 1'')]"


section \<open>Notions of the specification\<close>

text \<open>The specification's "path contains": \<open>i\<close> occurs somewhere inside \<open>s\<close>.\<close>

definition occurs_in :: "string \<Rightarrow> string \<Rightarrow> bool" where
  "occurs_in i s = (\<exists>before after. s = before @ i @ after)"

text \<open>An entry is one of the start-up files when its relative path names one of them.\<close>

definition boot_or_main :: "string \<times> string \<Rightarrow> bool" where
  "boot_or_main ele = (occurs_in ''boot.py'' (fst ele) \<or> occurs_in ''main.py'' (fst ele))"



text \<open>The last part of the path ends in \<^verbatim>\<open>.py\<close>.\<close>

definition is_python_source :: "path \<Rightarrow> bool" where
  "is_python_source p = (case rev p of [] \<Rightarrow> False | name # _ \<Rightarrow> ends_with ''.py'' name)"


section \<open>Basic facts\<close>

lemma result_bind:
  "result (py_bind m f) = (case result m of Inl e \<Rightarrow> Inl e | Inr x \<Rightarrow> result (f x))"
  by (cases m; cases "snd m") (auto simp: result_def split: prod.splits)

lemma result_simps [simp]:
  "result (py_return x) = Inr x"
  "result (py_raise e) = Inl e"
  "result (py_log lvl msg) = Inr ()"
  "result (lift r) = r"
  by (simp_all add: result_def py_return_def py_raise_def py_log_def lift_def)

lemma err_bind_Inr:
  "err_bind m f = Inr y \<longleftrightarrow> (\<exists>x. m = Inr x \<and> f x = Inr y)"
  by (cases m) auto

lemmas py_defs = py_return_def py_raise_def py_log_def lift_def

lemmas path_defs =
  root_dir_def parent_def is_root_part_def relative_to_def Path_def starts_with_def
  str_path_def path_div_def is_absolute_def is_file_def ends_with_def

lemmas example_defs =
  widget_def widget_config_def widget_config_empty_attr_def widget_config_no_urls_def
  widget_config_no_project_def example_libs_def example_glob_def widget_files_def
  widget_files_boot_def widget_manifest_def widget_manifest_reordered_def
  widget_manifest_boot_def outside_config_def outside_files_def

lemmas json_defs = widget_json_compact_def widget_json_reordered_def widget_json_pretty_def

lemmas discovery_defs = package_files_def find_packages_def tool_setuptools_def


section \<open>The version sentinel\<close>

text \<open>
  With \<^verbatim>\<open>version = {attr = ""}\<close> declared, \<^verbatim>\<open>package_version\<close> logs the warning and
  returns the sentinel.
\<close>

lemma package_version_empty_attr:
  "package_version L files (widget\<lparr>setup_data := widget_config_empty_attr\<rparr>)
     = ([(WARNING, ''Unable to identify package 'version'' @ [CHR 0x27])], Inr ''-1.-1.-1'')"
  by (simp add: package_version_def tool_setuptools_def widget_def
        widget_config_empty_attr_def py_defs)

text \<open>
  Without a \<^verbatim>\<open>version\<close> key under \<^verbatim>\<open>tool.setuptools.dynamic\<close> the \<^verbatim>\<open>get\<close> chain yields
  its string default, and indexing it raises \<^verbatim>\<open>TypeError\<close> before anything is logged.
\<close>

lemma package_version_no_dynamic_version:
  assumes "tool_setuptools self = Inr st"
    and "dict_get st ''dynamic'' (PDict []) = Inr (PDict dynamic)"
    and "map_of dynamic ''version'' = None"
  shows "package_version L files self = ([], Inl TypeError)"
  using assms by (simp add: package_version_def py_defs)

text \<open>
  C1.  The example project declares no version source: no changelog file and no
  \<^verbatim>\<open>tool.setuptools.dynamic.version\<close>.  Reading \<^verbatim>\<open>package_version\<close> then takes the string
  default of the \<^verbatim>\<open>get\<close> chain and indexes it with \<^verbatim>\<open>"attr"\<close>: it raises
  \<^verbatim>\<open>TypeError\<close>, logs no warning and returns no sentinel, whatever the libraries and the
  file system are.
\<close>

theorem package_version_without_source_raises:
  "package_changelog_file widget = None
   \<and> package_version L files widget = ([], Inl TypeError)"
  by (simp add: package_version_def tool_setuptools_def widget_def widget_config_def py_defs)


section \<open>The source URL\<close>

lemma package_url_no_project:
  "package_url (widget\<lparr>setup_data := widget_config_no_project\<rparr>)
     = ([(WARNING, ''No 'urls[Source]' key found in setup data dict'')],
        Inl (SystemExit ''Project URL is mandatory''))"
  by (simp add: package_url_def widget_def widget_config_no_project_def py_defs)

text \<open>
  \<^verbatim>\<open>package_url\<close> returns nothing but the declared \<^verbatim>\<open>project.urls.Source\<close>, and the
  derivation returns a manifest only if that entry is there: no default stands in for it.
\<close>

lemma package_url_Inr:
  assumes "result (package_url self) = Inr source"
  shows "\<exists>project declared.
           map_of (setup_data self) ''project'' = Some project
         \<and> py_getitem project ''urls'' = Inr declared
         \<and> py_getitem declared ''Source'' = Inr source"
  using assms
  by (auto simp: package_url_def result_bind err_bind_Inr
        split: option.splits if_splits)

text \<open>
  C2.  A configuration whose \<^verbatim>\<open>[project]\<close> table is there but declares no \<^verbatim>\<open>urls\<close>:
  \<^verbatim>\<open>package_url\<close> tests the table only, and the lookup of \<^verbatim>\<open>"urls"\<close> raises
  \<^verbatim>\<open>KeyError\<close> in place of the mandatory-field \<^verbatim>\<open>SystemExit\<close>; so does the derivation of
  the manifest.
\<close>

theorem package_url_missing_urls_raises_key_error:
  "package_url (widget\<lparr>setup_data := widget_config_no_urls\<rparr>) = ([], Inl (KeyError ''urls''))
   \<and> result (package_data example_libs widget_files
                (widget\<lparr>setup_data := widget_config_no_urls\<rparr>)) = Inl (KeyError ''urls'')"
  by (simp add: package_url_def package_data_def package_version_def package_deps_def
        discovery_defs path_defs example_defs py_defs result_def)


section \<open>The example of the specification\<close>

text \<open>
  With the empty \<^verbatim>\<open>attr\<close> declared the derivation reaches the manifest the
  specification expects.
\<close>

lemma package_data_widget_empty_attr:
  "result (package_data example_libs widget_files
             (widget\<lparr>setup_data := widget_config_empty_attr\<rparr>)) = Inr widget_manifest"
  by (simp add: package_data_def package_version_def package_deps_def package_url_def
        data_files_def discovery_defs path_defs example_defs py_defs result_def)

text \<open>
  C3.  On the configuration of the example (dependencies \<^verbatim>\<open>["urequests"]\<close>, the source URL,
  the package \<^verbatim>\<open>widget\<close> with its two files, no version source) \<^verbatim>\<open>package_data\<close> raises
  \<^verbatim>\<open>TypeError\<close>; in no environment does it return the expected manifest.
\<close>

theorem package_data_widget_raises:
  "package_data example_libs widget_files widget = ([], Inl TypeError)
   \<and> (\<forall>L files. result (package_data L files widget) \<noteq> Inr widget_manifest)"
proof
  show "package_data example_libs widget_files widget = ([], Inl TypeError)"
    by (simp add: package_data_def package_version_def discovery_defs path_defs
          example_defs py_defs)
next
  have version: "result (package_version L files widget) = Inl TypeError" for L files
    by (simp add: package_version_def tool_setuptools_def widget_def widget_config_def
          py_defs result_def)
  have none: "package_changelog_file widget = None"
    by (simp add: widget_def)
  show "\<forall>L files. result (package_data L files widget) \<noteq> Inr widget_manifest"
    by (simp add: package_data_def result_bind none version split: sum.splits)
qed

section \<open>Validation\<close>

lemma starts_with_iff: "starts_with p s \<longleftrightarrow> (\<exists>r. s = p @ r)"
  unfolding starts_with_def
  by (metis append_eq_conv_conj append_take_drop_id)

text \<open>The test \<^verbatim>\<open>i in s\<close> of the code is the specification's "contains".\<close>

lemma py_in_iff: "py_in i s \<longleftrightarrow> occurs_in i s"
proof (induction s)
  case Nil
  show ?case by (simp add: occurs_in_def)
next
  case (Cons c cs)
  have "occurs_in i (c # cs) \<longleftrightarrow> starts_with i (c # cs) \<or> occurs_in i cs"
  proof
    assume "occurs_in i (c # cs)"
    then obtain b a where eq: "c # cs = b @ i @ a" by (auto simp: occurs_in_def)
    show "starts_with i (c # cs) \<or> occurs_in i cs"
    proof (cases b)
      case Nil
      with eq show ?thesis by (auto simp: starts_with_iff)
    next
      case (Cons x b')
      with eq have "cs = b' @ i @ a" by simp
      then show ?thesis by (auto simp: occurs_in_def)
    qed
  next
    assume "starts_with i (c # cs) \<or> occurs_in i cs"
    then show "occurs_in i (c # cs)"
    proof
      assume "starts_with i (c # cs)"
      then obtain r where "c # cs = [] @ i @ r" by (auto simp: starts_with_iff)
      then show ?thesis unfolding occurs_in_def by blast
    next
      assume "occurs_in i cs"
      then obtain b a where "cs = b @ i @ a" by (auto simp: occurs_in_def)
      then have "c # cs = (c # b) @ i @ a" by simp
      then show ?thesis unfolding occurs_in_def by blast
    qed
  qed
  with Cons show ?case by simp
qed

lemma boot_or_main_code:
  "boot_or_main ele \<longleftrightarrow> py_in ''boot.py'' (fst ele) \<or> py_in ''main.py'' (fst ele)"
  by (simp add: boot_or_main_def py_in_iff)

lemma exclude_default:
  "exclude_package_files entries default_excludes
     = filter (\<lambda>ele. \<not> boot_or_main ele) entries"
  by (simp add: exclude_package_files_def default_excludes_def boot_or_main_code)

lemma manifest_eq_iff:
  "(a :: manifest) = b \<longleftrightarrow> urls a = urls b \<and> deps a = deps b \<and> version a = version b"
  by (cases a; cases b) simp

text \<open>What \<^verbatim>\<open>validate\<close> returns once both manifests are there.\<close>

lemma validate_result:
  assumes "result (package_json_data L files self) = Inr target"
    and "result (package_data L files self) = Inr derived"
  shows "result (validate L files self ignore_version ignore_deps ignore_boot_main) =
     Inr ((if ignore_version then None else version target)
            = (if ignore_version then None else version derived)
        \<and> (if ignore_deps then None else deps target)
            = (if ignore_deps then None else deps derived)
        \<and> (if ignore_boot_main
            then Some (sort (exclude_package_files
                   (case urls target of None \<Rightarrow> [] | Some u \<Rightarrow> u) default_excludes))
            else map_option sort (urls target))
          = (if ignore_boot_main
             then Some (sort (exclude_package_files
                    (case urls derived of None \<Rightarrow> [] | Some u \<Rightarrow> u) default_excludes))
             else map_option sort (urls derived)))"
  using assms
  by (auto simp add: validate_def result_bind Let_def manifest_eq_iff)

lemma sort_cong_mset: "mset xs = mset ys \<Longrightarrow> sort xs = sort (ys :: ('a::linorder) list)"
  by (metis mset_sort properties_for_sort sorted_sort)

text \<open>The manifests of the example project, read and derived.\<close>

lemma package_json_data_widget:
  "result (package_json_data example_libs widget_files (widget\<lparr>setup_data := config\<rparr>))
     = Inr widget_manifest_reordered"
  by (simp add: package_json_data_def widget_def widget_files_def example_libs_def json_defs)

lemma package_json_data_widget_boot:
  "result (package_json_data example_libs widget_files_boot (widget\<lparr>setup_data := config\<rparr>))
     = Inr widget_manifest_reordered"
  by (simp add: package_json_data_def widget_def widget_files_def widget_files_boot_def
        example_libs_def json_defs)

lemma package_json_data_widget_compact:
  "result (package_json_data example_libs
             (widget_files([''proj'', ''package.json''] \<mapsto> widget_json_compact))
             (widget\<lparr>setup_data := config\<rparr>))
     = Inr widget_manifest"
  by (simp add: package_json_data_def widget_def example_libs_def)

lemma package_data_widget_compact:
  "result (package_data example_libs
             (widget_files([''proj'', ''package.json''] \<mapsto> body))
             (widget\<lparr>setup_data := widget_config_empty_attr\<rparr>))
     = Inr widget_manifest"
  by (simp add: package_data_def package_version_def package_deps_def package_url_def
        data_files_def discovery_defs path_defs example_defs py_defs result_def)

lemma package_data_widget_boot:
  "result (package_data example_libs widget_files_boot
             (widget\<lparr>setup_data := widget_config_empty_attr\<rparr>)) = Inr widget_manifest_boot"
  by (simp add: package_data_def package_version_def package_deps_def package_url_def
        data_files_def discovery_defs path_defs example_defs py_defs result_def)

text \<open>
  C4.  \<^verbatim>\<open>_exclude_package_files\<close> with its default excludes keeps exactly the entries whose
  relative path contains neither \<^verbatim>\<open>boot.py\<close> nor \<^verbatim>\<open>main.py\<close>, in their order; and
  \<^verbatim>\<open>validate\<close> with \<^verbatim>\<open>ignore_boot_main\<close> compares the \<^verbatim>\<open>urls\<close> of the target and of the
  derived manifest after this filter has been applied to both and both have been sorted.
\<close>

theorem ignore_boot_main_filters_both_sides:
  "exclude_package_files entries default_excludes = filter (\<lambda>ele. \<not> boot_or_main ele) entries
   \<and> (result (package_json_data L files self) = Inr target \<longrightarrow>
      result (package_data L files self) = Inr derived \<longrightarrow>
      result (validate L files self ignore_version ignore_deps True) =
        Inr ((if ignore_version then None else version target)
               = (if ignore_version then None else version derived)
           \<and> (if ignore_deps then None else deps target)
               = (if ignore_deps then None else deps derived)
           \<and> sort (filter (\<lambda>ele. \<not> boot_or_main ele)
                      (case urls target of None \<Rightarrow> [] | Some u \<Rightarrow> u))
               = sort (filter (\<lambda>ele. \<not> boot_or_main ele)
                        (case urls derived of None \<Rightarrow> [] | Some u \<Rightarrow> u))))"
  by (simp add: validate_result exclude_default)

text \<open>
  On the project with \<^verbatim>\<open>boot.py\<close>: the derived manifest lists three files, the target the
  other two; the filter removes the \<^verbatim>\<open>boot.py\<close> entry only, and validation succeeds.
\<close>

theorem ignore_boot_main_filters_both_sides_witness:
  "result (package_json_data example_libs widget_files_boot
             (widget\<lparr>setup_data := widget_config_empty_attr\<rparr>)) = Inr widget_manifest_reordered
   \<and> result (package_data example_libs widget_files_boot
             (widget\<lparr>setup_data := widget_config_empty_attr\<rparr>)) = Inr widget_manifest_boot
   \<and> exclude_package_files
         [(''widget/__init__.py'', ''github:acme/widget/widget/__init__.py''),
          (''widget/core.py'', ''github:acme/widget/widget/core.py''),
          (''widget/boot.py'', ''github:acme/widget/widget/boot.py'')] default_excludes
       = [(''widget/__init__.py'', ''github:acme/widget/widget/__init__.py''),
          (''widget/core.py'', ''github:acme/widget/widget/core.py'')]
   \<and> result (validate example_libs widget_files_boot
               (widget\<lparr>setup_data := widget_config_empty_attr\<rparr>) False False True) = Inr True"
  using ignore_boot_main_filters_both_sides
    [of "[(''widget/__init__.py'', ''github:acme/widget/widget/__init__.py''),
          (''widget/core.py'', ''github:acme/widget/widget/core.py''),
          (''widget/boot.py'', ''github:acme/widget/widget/boot.py'')]"
        example_libs widget_files_boot
        "widget\<lparr>setup_data := widget_config_empty_attr\<rparr>"
        widget_manifest_reordered widget_manifest_boot False False]
    package_json_data_widget_boot [of widget_config_empty_attr] package_data_widget_boot
  by (simp add: widget_manifest_boot_def widget_manifest_reordered_def
        boot_or_main_code starts_with_def)

text \<open>
  C5.  When the target manifest and the derived manifest are the same, \<^verbatim>\<open>validate\<close>
  returns \<^verbatim>\<open>True\<close> under every choice of flags; and it returns \<^verbatim>\<open>True\<close> when their
  \<^verbatim>\<open>urls\<close> hold the same entries in any order, while \<^verbatim>\<open>version\<close> and \<^verbatim>\<open>deps\<close> are each
  ignored or equal.
\<close>

theorem validate_reflexive_and_order_insensitive:
  assumes "result (package_json_data L files self) = Inr target"
    and "result (package_data L files self) = Inr derived"
  shows "(target = derived \<longrightarrow>
            result (validate L files self ignore_version ignore_deps ignore_boot_main) = Inr True)
       \<and> (urls target = Some us \<and> urls derived = Some us' \<and> mset us = mset us'
            \<and> (ignore_version \<or> version target = version derived)
            \<and> (ignore_deps \<or> deps target = deps derived) \<longrightarrow>
            result (validate L files self ignore_version ignore_deps ignore_boot_main) = Inr True)"
proof -
  have "sort (exclude_package_files us default_excludes)
          = sort (exclude_package_files us' default_excludes)"
    if "mset us = mset us'"
    using that by (intro sort_cong_mset) (simp add: exclude_package_files_def)
  moreover have "sort us = sort us'" if "mset us = mset us'"
    using that by (rule sort_cong_mset)
  ultimately show ?thesis
    by (auto simp add: validate_result [OF assms])
qed

text \<open>
  The target of the example project lists the two files in the other order than the
  derivation; a second target is the derived manifest itself.
\<close>

theorem validate_reflexive_and_order_insensitive_witness:
  "result (package_json_data example_libs widget_files
             (widget\<lparr>setup_data := widget_config_empty_attr\<rparr>)) = Inr widget_manifest_reordered
   \<and> result (package_data example_libs widget_files
             (widget\<lparr>setup_data := widget_config_empty_attr\<rparr>)) = Inr widget_manifest
   \<and> widget_manifest_reordered \<noteq> widget_manifest
   \<and> result (validate example_libs widget_files
               (widget\<lparr>setup_data := widget_config_empty_attr\<rparr>) True True False) = Inr True
   \<and> result (validate example_libs widget_files
               (widget\<lparr>setup_data := widget_config_empty_attr\<rparr>) False False False) = Inr True
   \<and> result (package_json_data example_libs
               (widget_files([''proj'', ''package.json''] \<mapsto> widget_json_compact))
               (widget\<lparr>setup_data := widget_config_empty_attr\<rparr>)) = Inr widget_manifest
   \<and> result (validate example_libs
               (widget_files([''proj'', ''package.json''] \<mapsto> widget_json_compact))
               (widget\<lparr>setup_data := widget_config_empty_attr\<rparr>) False False False) = Inr True"
proof -
  let ?w = "widget\<lparr>setup_data := widget_config_empty_attr\<rparr>"
  let ?us = "[(''widget/core.py'', ''github:acme/widget/widget/core.py''),
              (''widget/__init__.py'', ''github:acme/widget/widget/__init__.py'')]"
  let ?us' = "[(''widget/__init__.py'', ''github:acme/widget/widget/__init__.py''),
               (''widget/core.py'', ''github:acme/widget/widget/core.py'')]"
  have t: "result (package_json_data example_libs widget_files ?w) = Inr widget_manifest_reordered"
    by (rule package_json_data_widget)
  have d: "result (package_data example_libs widget_files ?w) = Inr widget_manifest"
    by (rule package_data_widget_empty_attr)
  have t': "result (package_json_data example_libs
               (widget_files([''proj'', ''package.json''] \<mapsto> widget_json_compact)) ?w)
             = Inr widget_manifest"
    by (rule package_json_data_widget_compact)
  have d': "result (package_data example_libs
               (widget_files([''proj'', ''package.json''] \<mapsto> widget_json_compact)) ?w)
             = Inr widget_manifest"
    by (rule package_data_widget_compact)
  have same: "urls widget_manifest_reordered = Some ?us \<and> urls widget_manifest = Some ?us'
      \<and> mset ?us = mset ?us'
      \<and> version widget_manifest_reordered = version widget_manifest
      \<and> deps widget_manifest_reordered = deps widget_manifest"
    by (simp add: widget_manifest_reordered_def widget_manifest_def)
  have differ: "widget_manifest_reordered \<noteq> widget_manifest"
    by (simp add: widget_manifest_reordered_def widget_manifest_def)
  from validate_reflexive_and_order_insensitive
         [OF t d, where us = ?us and us' = ?us' and ignore_version = True
            and ignore_deps = True and ignore_boot_main = False]
    validate_reflexive_and_order_insensitive
         [OF t d, where us = ?us and us' = ?us' and ignore_version = False
            and ignore_deps = False and ignore_boot_main = False]
    validate_reflexive_and_order_insensitive
         [OF t' d', where us = ?us and us' = ?us' and ignore_version = False
            and ignore_deps = False and ignore_boot_main = False]
    t d t' same differ
  show ?thesis by blast
qed


section \<open>The derived manifest\<close>

lemma result_create_url_elements:
  "result (create_url_elements found url)
     = Inr (map (\<lambda>file. (str_path file, str_path (path_div (Path url) file))) found)"
  by (induction found) (simp_all add: result_bind)

text \<open>When \<^verbatim>\<open>package_data\<close> returns, every step before has returned.\<close>

lemma package_data_Inr:
  "result (package_data L files self) = Inr m \<longleftrightarrow>
     (\<exists>found ver requires source.
        package_files L files self = Inr found
      \<and> result (case package_changelog_file self of
                  Some _ \<Rightarrow> package_changelog_version L files self
                | None \<Rightarrow> package_version L files self) = Inr ver
      \<and> result (package_deps self) = Inr requires
      \<and> result (package_url self) = Inr (PStr source)
      \<and> m = \<lparr>urls = Some (map (\<lambda>file. (str_path file,
                   str_path (path_div
                     (Path (py_replace ''https://github.com/'' ''github:'' source)) file)))
                 found),
              deps = Some requires, version = Some ver\<rparr>)"
  by (auto simp add: package_data_def result_bind result_create_url_elements data_files_def
        split: sum.splits pyval.splits)









section \<open>Package discovery\<close>

lemma package_paths_loop_discover:
  "package_paths_loop (L\<lparr>find_namespace_packages := discover\<rparr>) root package_dir packages acc
     = package_paths_loop L root package_dir packages acc"
  by (induction packages arbitrary: acc)
    (auto split: pyval.splits sum.splits simp: err_bind_Inr)

lemma dict_set_keys: "fst ` set (dict_set kvs k v) = insert k (fst ` set kvs)"
  by (induction kvs k v rule: dict_set.induct) auto

lemma dict_set_values:
  "(n, p) \<in> set (dict_set kvs k v) \<Longrightarrow> (n, p) \<in> set kvs \<or> (n = k \<and> p = v)"
  by (induction kvs k v rule: dict_set.induct) (auto split: if_splits)

lemma package_paths_loop_keys:
  "package_paths_loop L root package_dir packages acc = Inr paths \<Longrightarrow>
   PStr ` fst ` set paths = PStr ` fst ` set acc \<union> set packages"
proof (induction packages arbitrary: acc)
  case Nil
  then show ?case by simp
next
  case (Cons package packages)
  from Cons.prems obtain name path where
    name: "package = PStr name"
    and rest: "package_paths_loop L root package_dir packages (dict_set acc name path)
                 = Inr paths"
    by (auto split: pyval.splits simp: err_bind_Inr)
  from Cons.IH [OF rest] name show ?case
    by (simp add: dict_set_keys)
qed

lemma package_paths_loop_values:
  "package_paths_loop L root package_dir packages acc = Inr paths \<Longrightarrow>
   \<forall>(n, p) \<in> set acc. find_package_path L n package_dir root = Inr p \<Longrightarrow>
   \<forall>(n, p) \<in> set paths. find_package_path L n package_dir root = Inr p"
proof (induction packages arbitrary: acc)
  case Nil
  then show ?case by simp
next
  case (Cons package packages)
  from Cons.prems(1) obtain name path where
    name: "package = PStr name"
    and path: "find_package_path L name package_dir root = Inr path"
    and rest: "package_paths_loop L root package_dir packages (dict_set acc name path)
                 = Inr paths"
    by (auto split: pyval.splits simp: err_bind_Inr)
  have "\<forall>(n, p) \<in> set (dict_set acc name path).
          find_package_path L n package_dir root = Inr p"
    using Cons.prems(2) path by (auto dest: dict_set_values)
  from Cons.IH [OF rest this] show ?case .
qed

lemma find_packages_widget:
  "find_packages example_libs widget None = Inr [(''widget'', ''proj/./widget'')]"
  by (simp add: find_packages_def tool_setuptools_def path_defs example_defs)

text \<open>
  C9.  When \<^verbatim>\<open>tool.setuptools.packages\<close> is a list, \<^verbatim>\<open>_find_packages\<close> does not depend on
  what auto-discovery (\<^verbatim>\<open>find_namespace_packages\<close>) would answer; without a package name
  it is the loop over that list with the declared \<^verbatim>\<open>package-dir\<close> mapping (or its default),
  so the packages it returns are the listed ones, each with the path setuptools resolves
  through that mapping.
\<close>

theorem explicit_package_list_takes_precedence:
  assumes "tool_setuptools self = Inr st"
    and "dict_get st ''packages'' (PDict []) = Inr (PList listed)"
    and "dict_get st ''package-dir'' (PDict [([], PStr ''.'')]) = Inr package_dir"
  shows "find_packages (L\<lparr>find_namespace_packages := discover\<rparr>) self package_name
           = find_packages L self package_name
       \<and> find_packages L self None
           = package_paths_loop L (root_dir self) package_dir listed []
       \<and> (find_packages L self None = Inr paths \<longrightarrow>
            PStr ` fst ` set paths = set listed
          \<and> (\<forall>(name, path) \<in> set paths.
                find_package_path L name package_dir (root_dir self) = Inr path))"
proof -
  have eq: "find_packages L' self pn
              = package_paths_loop L' (root_dir self) package_dir
                  (case pn of None \<Rightarrow> listed | Some name \<Rightarrow> [PStr name]) []" for L' pn
    using assms by (simp add: find_packages_def)
  have "PStr ` fst ` set paths = set listed
      \<and> (\<forall>(name, path) \<in> set paths.
            find_package_path L name package_dir (root_dir self) = Inr path)"
    if "find_packages L self None = Inr paths"
    using that package_paths_loop_keys [of L "root_dir self" package_dir listed "[]" paths]
      package_paths_loop_values [of L "root_dir self" package_dir listed "[]" paths]
    by (simp add: eq)
  then show ?thesis
    by (simp add: eq package_paths_loop_discover)
qed

theorem explicit_package_list_takes_precedence_witness:
  "tool_setuptools widget = Inr (PDict [(''packages'', PList [PStr ''widget''])])
   \<and> dict_get (PDict [(''packages'', PList [PStr ''widget''])]) ''packages'' (PDict [])
       = Inr (PList [PStr ''widget''])
   \<and> dict_get (PDict [(''packages'', PList [PStr ''widget''])]) ''package-dir''
         (PDict [([], PStr ''.'')]) = Inr (PDict [([], PStr ''.'')])
   \<and> find_packages
         (example_libs\<lparr>find_namespace_packages := (\<lambda>search_dir include exclude. Inr [''other''])\<rparr>)
         widget None = Inr [(''widget'', ''proj/./widget'')]
   \<and> PStr ` fst ` set [(''widget'', ''proj/./widget'')] = set [PStr ''widget'']"
proof -
  have st: "tool_setuptools widget = Inr (PDict [(''packages'', PList [PStr ''widget''])])"
    by (simp add: tool_setuptools_def widget_def widget_config_def)
  have listed: "dict_get (PDict [(''packages'', PList [PStr ''widget''])]) ''packages'' (PDict [])
       = Inr (PList [PStr ''widget''])"
    by simp
  have package_dir: "dict_get (PDict [(''packages'', PList [PStr ''widget''])]) ''package-dir''
         (PDict [([], PStr ''.'')]) = Inr (PDict [([], PStr ''.'')])"
    by simp
  from explicit_package_list_takes_precedence
         [OF st listed package_dir, where L = example_libs and package_name = None
            and discover = "\<lambda>search_dir include exclude. Inr [''other'']"
            and paths = "[(''widget'', ''proj/./widget'')]"]
  have unused: "find_packages
         (example_libs\<lparr>find_namespace_packages := (\<lambda>search_dir include exclude. Inr [''other''])\<rparr>)
         widget None = find_packages example_libs widget None"
    and "find_packages example_libs widget None = Inr [(''widget'', ''proj/./widget'')] \<longrightarrow>
         PStr ` fst ` set [(''widget'', ''proj/./widget'')] = set [PStr ''widget'']"
    by blast+
  with find_packages_widget
  have keys: "PStr ` fst ` set [(''widget'', ''proj/./widget'')] = set [PStr ''widget'']"
    by blast
  show ?thesis
    unfolding unused find_packages_widget
    by (intro conjI st listed package_dir keys refl)
qed


section \<open>The source of the version\<close>

lemma package_paths_loop_loader:
  "package_paths_loop (L\<lparr>exec_module := loader\<rparr>) = package_paths_loop L"
proof (intro ext)
  fix root package_dir packages acc
  show "package_paths_loop (L\<lparr>exec_module := loader\<rparr>) root package_dir packages acc
          = package_paths_loop L root package_dir packages acc"
    by (induction packages arbitrary: acc)
      (auto split: pyval.splits sum.splits simp: err_bind_Inr)
qed

lemma search_dirs_loop_loader:
  "search_dirs_loop (L\<lparr>exec_module := loader\<rparr>) = search_dirs_loop L"
proof (intro ext)
  fix root rules pn dirs acc
  show "search_dirs_loop (L\<lparr>exec_module := loader\<rparr>) root rules pn dirs acc
          = search_dirs_loop L root rules pn dirs acc"
  proof (induction dirs arbitrary: acc)
    case Nil
    show ?case by simp
  next
    case (Cons d dirs)
    have "search_dirs_loop (L\<lparr>exec_module := loader\<rparr>) root rules pn dirs
            = search_dirs_loop L root rules pn dirs"
      by (rule ext) (rule Cons.IH)
    then show ?case
      by (cases pn) (simp_all add: package_paths_loop_loader)
  qed
qed

lemma find_packages_loader:
  "find_packages (L\<lparr>exec_module := loader\<rparr>) = find_packages L"
  unfolding find_packages_def package_paths_loop_loader search_dirs_loop_loader ..

lemma package_files_loop_loader:
  "package_files_loop (L\<lparr>exec_module := loader\<rparr>) files root infos acc
     = package_files_loop L files root infos acc"
proof (induction infos arbitrary: acc)
  case Nil
  show ?case by simp
next
  case (Cons info infos)
  have "package_files_loop (L\<lparr>exec_module := loader\<rparr>) files root infos
          = package_files_loop L files root infos"
    by (rule ext) (rule Cons.IH)
  then show ?case by (simp add: Let_def)
qed

lemma package_files_loader:
  "package_files (L\<lparr>exec_module := loader\<rparr>) files self = package_files L files self"
proof -
  have "package_files_loop (L\<lparr>exec_module := loader\<rparr>) files (root_dir self)
          = package_files_loop L files (root_dir self)"
    by (intro ext) (rule package_files_loop_loader)
  then show ?thesis
    by (simp add: package_files_def find_packages_loader)
qed

lemma package_changelog_version_loader:
  "package_changelog_version (L\<lparr>exec_module := loader\<rparr>) files self
     = package_changelog_version L files self"
  by (simp add: package_changelog_version_def split: option.splits)

lemma package_data_widget_changelog:
  "result (package_data example_libs widget_files
             (widget\<lparr>package_changelog_file := Some [''proj'', ''CHANGELOG.md'']\<rparr>))
     = Inr (widget_manifest\<lparr>version := Some ''1.2.3''\<rparr>)"
  by (simp add: package_data_def package_changelog_version_def package_deps_def
        package_url_def data_files_def discovery_defs path_defs example_defs py_defs result_def)

text \<open>
  C10.  Whenever the derivation returns a manifest: if a changelog file was supplied, the
  version of the manifest is the one \<^verbatim>\<open>package_changelog_version\<close> returns, and the
  derivation is the same whatever the loading of a version module would give; if none was
  supplied, the version is the one \<^verbatim>\<open>package_version\<close> returns.
\<close>

theorem changelog_version_takes_precedence:
  assumes "result (package_data L files self) = Inr m"
  shows "(\<forall>changelog. package_changelog_file self = Some changelog \<longrightarrow>
            (\<exists>v. result (package_changelog_version L files self) = Inr v \<and> version m = Some v)
          \<and> (\<forall>loader. package_data (L\<lparr>exec_module := loader\<rparr>) files self
                        = package_data L files self))
       \<and> (package_changelog_file self = None \<longrightarrow>
            (\<exists>v. result (package_version L files self) = Inr v \<and> version m = Some v))"
proof -
  have "package_data (L\<lparr>exec_module := loader\<rparr>) files self = package_data L files self"
    if "package_changelog_file self = Some changelog" for loader changelog
    using that
    by (simp add: package_data_def package_files_loader package_changelog_version_loader)
  with assms show ?thesis
    by (auto simp: package_data_Inr)
qed

text \<open>
  The example project with its changelog, where the configuration declares no dynamic
  version; and without a changelog, with the empty \<^verbatim>\<open>attr\<close>.
\<close>

theorem changelog_version_takes_precedence_witness:
  "result (package_data example_libs widget_files
             (widget\<lparr>package_changelog_file := Some [''proj'', ''CHANGELOG.md'']\<rparr>))
     = Inr (widget_manifest\<lparr>version := Some ''1.2.3''\<rparr>)
   \<and> (\<exists>v. result (package_changelog_version example_libs widget_files
                    (widget\<lparr>package_changelog_file := Some [''proj'', ''CHANGELOG.md'']\<rparr>)) = Inr v
          \<and> version (widget_manifest\<lparr>version := Some ''1.2.3''\<rparr>) = Some v)
   \<and> result (package_data example_libs widget_files
               (widget\<lparr>setup_data := widget_config_empty_attr\<rparr>)) = Inr widget_manifest
   \<and> (\<exists>v. result (package_version example_libs widget_files
                    (widget\<lparr>setup_data := widget_config_empty_attr\<rparr>)) = Inr v
          \<and> version widget_manifest = Some v)"
proof -
  let ?with = "widget\<lparr>package_changelog_file := Some [''proj'', ''CHANGELOG.md'']\<rparr>"
  let ?without = "widget\<lparr>setup_data := widget_config_empty_attr\<rparr>"
  have a: "result (package_data example_libs widget_files ?with)
             = Inr (widget_manifest\<lparr>version := Some ''1.2.3''\<rparr>)"
    by (rule package_data_widget_changelog)
  have b: "result (package_data example_libs widget_files ?without) = Inr widget_manifest"
    by (rule package_data_widget_empty_attr)
  have some: "package_changelog_file ?with = Some [''proj'', ''CHANGELOG.md'']"
    by simp
  have none: "package_changelog_file ?without = None"
    by (simp add: widget_def)
  from changelog_version_takes_precedence [OF a] changelog_version_takes_precedence [OF b]
    a b some none
  show ?thesis by blast
qed


section \<open>A missing target manifest\<close>

text \<open>
  C7, as the code has it.  Without a package file, \<^verbatim>\<open>validate\<close> raises
  \<^verbatim>\<open>Setup2uPyPackageError\<close> for every configuration, since it reads the target first.
  \<^verbatim>\<open>validation_diff\<close> evaluates the derivation first: it raises
  \<^verbatim>\<open>Setup2uPyPackageError\<close> when the derivation returns, and what the derivation raises
  otherwise.
\<close>

theorem missing_target_manifest_raises_domain_error:
  assumes "package_file self = None"
  shows "result (validate L files self ignore_version ignore_deps ignore_boot_main)
           = Inl (Setup2uPyPackageError ''No package.json data specified'')
       \<and> (result (package_data L files self) = Inr derived \<longrightarrow>
            result (validation_diff L files self)
              = Inl (Setup2uPyPackageError ''No package.json data specified''))
       \<and> (result (package_data L files self) = Inl e \<longrightarrow>
            result (validation_diff L files self) = Inl e)"
  using assms
  by (simp add: validate_def validation_diff_def package_json_data_def result_bind)

lemma package_data_widget_no_target:
  "result (package_data example_libs widget_files
             (widget\<lparr>setup_data := widget_config_empty_attr, package_file := None\<rparr>))
     = Inr widget_manifest"
  by (simp add: package_data_def package_version_def package_deps_def package_url_def
        data_files_def discovery_defs path_defs example_defs py_defs result_def)

theorem missing_target_manifest_raises_domain_error_witness:
  "package_file (widget\<lparr>setup_data := widget_config_empty_attr, package_file := None\<rparr>) = None
   \<and> result (validate example_libs widget_files
               (widget\<lparr>setup_data := widget_config_empty_attr, package_file := None\<rparr>)
               False False False)
       = Inl (Setup2uPyPackageError ''No package.json data specified'')
   \<and> result (package_data example_libs widget_files
               (widget\<lparr>setup_data := widget_config_empty_attr, package_file := None\<rparr>))
       = Inr widget_manifest
   \<and> result (validation_diff example_libs widget_files
               (widget\<lparr>setup_data := widget_config_empty_attr, package_file := None\<rparr>))
       = Inl (Setup2uPyPackageError ''No package.json data specified'')"
proof -
  let ?w = "widget\<lparr>setup_data := widget_config_empty_attr, package_file := None\<rparr>"
  have none: "package_file ?w = None"
    by simp
  have d: "result (package_data example_libs widget_files ?w) = Inr widget_manifest"
    by (rule package_data_widget_no_target)
  from missing_target_manifest_raises_domain_error
         [OF none, where L = example_libs and files = widget_files
            and ignore_version = False and ignore_deps = False and ignore_boot_main = False
            and derived = widget_manifest]
    none d
  show ?thesis by blast
qed

text \<open>
  The claim as stated fails for the diff: on a configuration without \<^verbatim>\<open>[project]\<close> and
  without a package file, \<^verbatim>\<open>validation_diff\<close> ends the process with the mandatory-field
  \<^verbatim>\<open>SystemExit\<close>.
\<close>

theorem validation_diff_without_target_exits:
  "package_file (widget\<lparr>setup_data := widget_config_no_project, package_file := None\<rparr>) = None
   \<and> result (validation_diff example_libs widget_files
               (widget\<lparr>setup_data := widget_config_no_project, package_file := None\<rparr>))
       = Inl (SystemExit ''Project URL is mandatory'')"
  by (simp add: validation_diff_def package_data_def package_version_def package_deps_def
        package_url_def discovery_defs path_defs example_defs py_defs result_def)


section \<open>Writing the manifest and reading it back\<close>

lemma package_file_update_other:
  "project_config_file (self\<lparr>package_file := f\<rparr>) = project_config_file self"
  "package_changelog_file (self\<lparr>package_file := f\<rparr>) = package_changelog_file self"
  "setup_data (self\<lparr>package_file := f\<rparr>) = setup_data self"
  by simp_all

text \<open>The derivation does not look at the package file.\<close>

lemma package_data_package_file:
  "package_data L files (self\<lparr>package_file := f\<rparr>) = package_data L files self"
  unfolding package_data_def package_files_def find_packages_def root_dir_def
    package_version_def package_changelog_version_def package_deps_def package_url_def
    tool_setuptools_def package_file_update_other ..

text \<open>Which files exist does not depend on what a file holds.\<close>

lemma is_file_content: "is_file (files(p \<mapsto> body)) = is_file (files(p \<mapsto> body'))"
  by (auto simp: is_file_def fun_eq_iff)

lemma package_files_content:
  "package_files L (files(p \<mapsto> body)) self = package_files L (files(p \<mapsto> body')) self"
proof -
  have "package_files_loop L (files(p \<mapsto> body)) root infos acc
          = package_files_loop L (files(p \<mapsto> body')) root infos acc" for root infos acc
  proof (induction infos arbitrary: acc)
    case Nil
    show ?case by simp
  next
    case (Cons info infos)
    have "package_files_loop L (files(p \<mapsto> body)) root infos
            = package_files_loop L (files(p \<mapsto> body')) root infos"
      by (rule ext) (rule Cons.IH)
    then show ?case
      unfolding package_files_loop.simps is_file_content [of files p body body'] by simp
  qed
  then have "package_files_loop L (files(p \<mapsto> body)) (root_dir self)
          = package_files_loop L (files(p \<mapsto> body')) (root_dir self)"
    by (intro ext)
  then show ?thesis by (simp add: package_files_def)
qed

lemma py_split_not_Nil: "py_split sep s \<noteq> []"
  by (induction s) (auto split: list.splits)

lemma py_split_append:
  "sep \<notin> set ys \<Longrightarrow>
   py_split sep (xs @ ys) = butlast (py_split sep xs) @ [last (py_split sep xs) @ ys]"
proof (induction xs)
  case Nil
  then show ?case
    by (induction ys) (auto split: list.splits)
next
  case (Cons x xs)
  then show ?case
    using py_split_not_Nil [of sep xs]
    by (cases "py_split sep xs") (auto split: list.splits)
qed

text \<open>The module \<^verbatim>\<open>load_module\<close> reads is always a \<^verbatim>\<open>.py\<close> file.\<close>

lemma Path_py_is_python_source: "is_python_source (Path (s @ ''.py''))"
proof -
  let ?w = "last (py_split CHR ''/'' s) @ ''.py''"
  have split: "py_split CHR ''/'' (s @ ''.py'') = butlast (py_split CHR ''/'' s) @ [?w]"
    by (rule py_split_append) simp
  have keep: "?w \<noteq> [] \<and> ?w \<noteq> ''.''"
    by simp
  have "\<exists>front. Path (s @ ''.py'') = front @ [?w]"
    unfolding Path_def split using keep by (simp del: append_assoc add: append_assoc [symmetric])
  then obtain front where "Path (s @ ''.py'') = front @ [?w]" ..
  then show ?thesis
    by (simp add: is_python_source_def ends_with_def starts_with_def)
qed

lemma load_module_content:
  "\<not> is_python_source p \<Longrightarrow>
   load_module L (files(p \<mapsto> body)) (src @ ''.py'')
     = load_module L (files(p \<mapsto> body')) (src @ ''.py'')"
  using Path_py_is_python_source [of src]
  by (auto simp: load_module_def)

lemma package_version_content:
  assumes "\<not> is_python_source p"
  shows "package_version L (files(p \<mapsto> body)) self
           = package_version L (files(p \<mapsto> body')) self"
  unfolding package_version_def load_module_content [OF assms, of L files body _ body'] ..

lemma package_changelog_version_content:
  assumes "package_changelog_file self \<noteq> Some p"
  shows "package_changelog_version L (files(p \<mapsto> body)) self
           = package_changelog_version L (files(p \<mapsto> body')) self"
  using assms by (auto simp: package_changelog_version_def split: option.splits)

text \<open>
  What a file holds matters to the derivation only if the file is the changelog or a
  \<^verbatim>\<open>.py\<close> source.
\<close>

lemma package_data_content:
  assumes "package_changelog_file self \<noteq> Some p" and "\<not> is_python_source p"
  shows "package_data L (files(p \<mapsto> body)) self
           = package_data L (files(p \<mapsto> body')) self"
  unfolding package_data_def
    package_files_content [of L files p body self body']
    package_version_content [OF assms(2), of L files body self body']
    package_changelog_version_content [OF assms(1), of L files body body'] ..

text \<open>\<^verbatim>\<open>create\<close>, with the output path it settles on written as \<open>out\<close>.\<close>

lemma create_result:
  assumes "out = (case output_path of
                    Some q \<Rightarrow> q
                  | None \<Rightarrow>
                      (case package_file self of
                         Some f \<Rightarrow> f
                       | None \<Rightarrow> path_div (parent (project_config_file self))
                                   (Path ''package.json'')))"
  shows "result (fst (create L files self output_path pretty))
           = (case open_for_writing L out of
                Some e \<Rightarrow> Inl e
              | None \<Rightarrow>
                  (case result (package_data L (files(out \<mapsto> [])) self) of
                     Inl e \<Rightarrow> Inl e | Inr m \<Rightarrow> Inr ()))"
    and "snd (create L files self output_path pretty)
           = (case open_for_writing L out of
                Some e \<Rightarrow> files
              | None \<Rightarrow>
                  (case result (package_data L (files(out \<mapsto> [])) self) of
                     Inl e \<Rightarrow> files(out \<mapsto> [])
                   | Inr m \<Rightarrow>
                       files(out \<mapsto> json_dumps L m (if pretty then Some 4 else None))))"
  unfolding create_def assms
  by (auto simp: result_def Let_def split: option.splits prod.splits sum.splits)

text \<open>
  C6.  Let \<^verbatim>\<open>create\<close> return, having written to the path \<open>out\<close> (the given path, else the
  package file, else \<^verbatim>\<open>package.json\<close> beside the configuration), pretty-printed or not.
  Provided json reads back the manifest it dumped, and \<open>out\<close> is neither the changelog file
  nor a \<^verbatim>\<open>.py\<close> file, loading the manifest from \<open>out\<close> and deriving it afresh give the same
  data.
\<close>

theorem persist_then_load_round_trip:
  assumes "out = (case output_path of
                    Some q \<Rightarrow> q
                  | None \<Rightarrow>
                      (case package_file self of
                         Some f \<Rightarrow> f
                       | None \<Rightarrow> path_div (parent (project_config_file self))
                                   (Path ''package.json'')))"
    and "create L files self output_path pretty = (outcome, files')"
    and "result outcome = Inr ()"
    and "\<forall>m. result (package_data L (files(out \<mapsto> [])) self) = Inr m \<longrightarrow>
              json_loads L (json_dumps L m (if pretty then Some 4 else None)) = Inr m"
    and "package_changelog_file self \<noteq> Some out"
    and "\<not> is_python_source out"
  shows "\<exists>m. result (package_json_data L files' (self\<lparr>package_file := Some out\<rparr>)) = Inr m
           \<and> result (package_data L files' (self\<lparr>package_file := Some out\<rparr>)) = Inr m"
proof -
  from assms(2) have outcome: "outcome = fst (create L files self output_path pretty)"
    and files': "files' = snd (create L files self output_path pretty)"
    by simp_all
  from assms(3) obtain m where
    opened: "open_for_writing L out = None"
    and derived: "result (package_data L (files(out \<mapsto> [])) self) = Inr m"
    unfolding outcome create_result(1) [OF assms(1)]
    by (auto split: option.splits sum.splits)
  then have written: "files' = files(out \<mapsto> json_dumps L m (if pretty then Some 4 else None))"
    unfolding files' create_result(2) [OF assms(1)] by simp
  from assms(4) derived
  have "json_loads L (json_dumps L m (if pretty then Some 4 else None)) = Inr m"
    by blast
  then have "result (package_json_data L files' (self\<lparr>package_file := Some out\<rparr>)) = Inr m"
    by (simp add: package_json_data_def written)
  moreover have "result (package_data L files' (self\<lparr>package_file := Some out\<rparr>)) = Inr m"
    using derived
      package_data_content [OF assms(5,6), of L files
        "json_dumps L m (if pretty then Some 4 else None)" "[]"]
    by (simp add: written package_data_package_file)
  ultimately show ?thesis by blast
qed

text \<open>
  The example project without a package file: \<^verbatim>\<open>create()\<close> writes the pretty-printed
  manifest to \<^verbatim>\<open>proj/package.json\<close>; \<^verbatim>\<open>create(Path("proj/package.json"), pretty=False)\<close>
  writes the compact one.
\<close>

lemma package_data_widget_written:
  "result (package_data example_libs
             (widget_files([''proj'', ''package.json''] \<mapsto> body))
             (widget\<lparr>setup_data := widget_config_empty_attr, package_file := None\<rparr>))
     = Inr widget_manifest"
  using package_data_widget_compact [of body]
  by (simp add: package_data_package_file)

lemma json_round_trip_widget:
  "json_loads example_libs (json_dumps example_libs widget_manifest indent) = Inr widget_manifest"
  by (simp add: example_libs_def split: option.splits)

theorem persist_then_load_round_trip_witness:
  "result (fst (create example_libs widget_files
                  (widget\<lparr>setup_data := widget_config_empty_attr, package_file := None\<rparr>)
                  None True)) = Inr ()
   \<and> \<not> is_python_source [''proj'', ''package.json'']
   \<and> (\<exists>m. result (package_json_data example_libs
                    (snd (create example_libs widget_files
                            (widget\<lparr>setup_data := widget_config_empty_attr,
                                    package_file := None\<rparr>) None True))
                    (widget\<lparr>setup_data := widget_config_empty_attr,
                            package_file := None,
                            package_file := Some [''proj'', ''package.json'']\<rparr>)) = Inr m
          \<and> result (package_data example_libs
                    (snd (create example_libs widget_files
                            (widget\<lparr>setup_data := widget_config_empty_attr,
                                    package_file := None\<rparr>) None True))
                    (widget\<lparr>setup_data := widget_config_empty_attr,
                            package_file := None,
                            package_file := Some [''proj'', ''package.json'']\<rparr>)) = Inr m)
   \<and> result (fst (create example_libs widget_files
                  (widget\<lparr>setup_data := widget_config_empty_attr, package_file := None\<rparr>)
                  (Some [''proj'', ''package.json'']) False)) = Inr ()
   \<and> (\<exists>m. result (package_json_data example_libs
                    (snd (create example_libs widget_files
                            (widget\<lparr>setup_data := widget_config_empty_attr,
                                    package_file := None\<rparr>)
                            (Some [''proj'', ''package.json'']) False))
                    (widget\<lparr>setup_data := widget_config_empty_attr,
                            package_file := None,
                            package_file := Some [''proj'', ''package.json'']\<rparr>)) = Inr m
          \<and> result (package_data example_libs
                    (snd (create example_libs widget_files
                            (widget\<lparr>setup_data := widget_config_empty_attr,
                                    package_file := None\<rparr>)
                            (Some [''proj'', ''package.json'']) False))
                    (widget\<lparr>setup_data := widget_config_empty_attr,
                            package_file := None,
                            package_file := Some [''proj'', ''package.json'']\<rparr>)) = Inr m)"
proof -
  let ?w = "widget\<lparr>setup_data := widget_config_empty_attr, package_file := None\<rparr>"
  let ?out = "[''proj'', ''package.json'']"
  have default: "?out = (case None of
                    Some q \<Rightarrow> q
                  | None \<Rightarrow>
                      (case package_file ?w of
                         Some f \<Rightarrow> f
                       | None \<Rightarrow> path_div (parent (project_config_file ?w))
                                   (Path ''package.json'')))"
    by (simp add: path_defs widget_def)
  have given: "?out = (case Some ?out of
                    Some q \<Rightarrow> q
                  | None \<Rightarrow>
                      (case package_file ?w of
                         Some f \<Rightarrow> f
                       | None \<Rightarrow> path_div (parent (project_config_file ?w))
                                   (Path ''package.json'')))"
    by simp
  have pretty: "create example_libs widget_files ?w None True
      = (fst (create example_libs widget_files ?w None True),
         snd (create example_libs widget_files ?w None True))"
    by simp
  have compact: "create example_libs widget_files ?w (Some ?out) False
      = (fst (create example_libs widget_files ?w (Some ?out) False),
         snd (create example_libs widget_files ?w (Some ?out) False))"
    by simp
  have dir: "open_for_writing example_libs ?out = None"
    by (simp add: example_libs_def parent_def)
  have done_pretty: "result (fst (create example_libs widget_files ?w None True)) = Inr ()"
    unfolding create_result(1) [OF default] package_data_widget_written dir by simp
  have done_compact:
    "result (fst (create example_libs widget_files ?w (Some ?out) False)) = Inr ()"
    unfolding create_result(1) [OF given] package_data_widget_written dir by simp
  have json: "\<forall>m. result (package_data example_libs (widget_files(?out \<mapsto> [])) ?w) = Inr m \<longrightarrow>
      json_loads example_libs (json_dumps example_libs m (if pretty then Some 4 else None)) = Inr m"
    for pretty
    unfolding package_data_widget_written by (simp add: json_round_trip_widget)
  have changelog: "package_changelog_file ?w \<noteq> Some ?out"
    by (simp add: widget_def)
  have name: "\<not> is_python_source ?out"
    by (simp add: is_python_source_def ends_with_def starts_with_def)
  from persist_then_load_round_trip [OF default pretty done_pretty json changelog name]
    persist_then_load_round_trip [OF given compact done_compact json changelog name]
    done_pretty done_compact name
  show ?thesis by blast
qed

end
